theory Spec2Isabelle
  imports Main "HOL-Library.Word"
begin

section \<open>Values, exceptions and responses\<close>

text \<open>
  The values that \<open>request.get_json()\<close> and \<open>res.json()\<close> return: Python's
  \<open>None\<close>, \<open>bool\<close>, \<open>int\<close>, \<open>float\<close> (its 64 bits), \<open>str\<close>, \<open>list\<close> and
  \<open>dict\<close> with string keys (the items of the dict; a key is looked up with \<open>map_of\<close>).
  The bodies that \<open>jsonify\<close> sends are values of the same type.
\<close>

datatype json =
    JNull
  | JBool bool
  | JInt int
  | JFloat "64 word"
  | JStr string
  | JArr "json list"
  | JObj "(string \<times> json) list"

text \<open>
  The exceptions derived from Python's \<open>Exception\<close>, each with the text that \<open>str(e)\<close>
  gives. Only \<open>UnknownTimeZoneError\<close> is caught by class in the source.
\<close>

datatype exn =
    UnknownTimeZoneError string
  | AttributeError string
  | OverflowError string
  | OtherException string

fun str_exn :: "exn \<Rightarrow> string" where
  "str_exn (UnknownTimeZoneError m) = m"
| "str_exn (AttributeError m) = m"
| "str_exn (OverflowError m) = m"
| "str_exn (OtherException m) = m"

text \<open>Sequencing of steps that may raise: the first exception ends the sequence.\<close>

definition bindE :: "exn + 'a \<Rightarrow> ('a \<Rightarrow> exn + 'b) \<Rightarrow> exn + 'b" where
  "bindE x f = (case x of Inl e \<Rightarrow> Inl e | Inr v \<Rightarrow> f v)"

text \<open>Python's truth value of a value (\<open>not x\<close> is its negation).\<close>

fun truthy :: "json \<Rightarrow> bool" where
  "truthy JNull = False"
| "truthy (JBool b) = b"
| "truthy (JInt i) = (i \<noteq> 0)"
| "truthy (JFloat w) = (push_bit 1 w \<noteq> 0)"
| "truthy (JStr s) = (s \<noteq> [])"
| "truthy (JArr xs) = (xs \<noteq> [])"
| "truthy (JObj kvs) = (kvs \<noteq> [])"

fun type_name :: "json \<Rightarrow> string" where
  "type_name JNull = ''NoneType''"
| "type_name (JBool b) = ''bool''"
| "type_name (JInt i) = ''int''"
| "type_name (JFloat w) = ''float''"
| "type_name (JStr s) = ''str''"
| "type_name (JArr xs) = ''list''"
| "type_name (JObj kvs) = ''dict''"

text \<open>
  \<open>d.get(key, default)\<close>: a lookup with a default on a dict, an \<open>AttributeError\<close> on
  every other value. \<open>d.get(key)\<close> is \<open>py_get d key JNull\<close>.
\<close>

definition dict_get :: "(string \<times> json) list \<Rightarrow> string \<Rightarrow> json \<Rightarrow> json" where
  "dict_get kvs key dflt = (case map_of kvs key of None \<Rightarrow> dflt | Some v \<Rightarrow> v)"

definition py_get :: "json \<Rightarrow> string \<Rightarrow> json \<Rightarrow> exn + json" where
  "py_get d key dflt =
     (case d of
        JObj kvs \<Rightarrow> Inr (dict_get kvs key dflt)
      | _ \<Rightarrow> Inl (AttributeError
                 ([CHR 0x27] @ type_name d @ [CHR 0x27] @ '' object has no attribute ''
                  @ [CHR 0x27] @ ''get'' @ [CHR 0x27])))"

record response =
  status :: int
  body :: json

definition jsonify :: "int \<Rightarrow> (string \<times> json) list \<Rightarrow> response" where
  "jsonify code items = \<lparr>status = code, body = JObj items\<rparr>"

section \<open>Decimal formatting\<close>

definition digit :: "nat \<Rightarrow> char" where
  "digit d = ''0123456789'' ! d"

fun str_nat :: "nat \<Rightarrow> string" where
  "str_nat n = (if n < 10 then [digit n] else str_nat (n div 10) @ [digit (n mod 10)])"

declare str_nat.simps [simp del]

definition str_int :: "int \<Rightarrow> string" where
  "str_int i = (if i < 0 then CHR ''-'' # str_nat (nat (- i)) else str_nat (nat i))"

text \<open>\<open>"%0wd" % i\<close> for a non-negative \<open>i\<close>: the digits, padded with zeros to width w.\<close>

definition zpad :: "nat \<Rightarrow> int \<Rightarrow> string" where
  "zpad w i = (let s = str_nat (nat i) in replicate (w - length s) CHR ''0'' @ s)"

section \<open>Date and time\<close>

text \<open>
  A \<open>datetime\<close>: its fields year to microsecond, counted as the microseconds of the
  wall clock since 0001-01-01T00:00:00, and what \<open>utcoffset()\<close> returns in seconds
  (\<open>None\<close> for a naive value, whose \<open>tzinfo\<close> is \<open>None\<close>).
\<close>

record datetime =
  wall :: int
  utcoffset :: "int option"

definition US :: int where "US = 1000000"
definition DAY_US :: int where "DAY_US = 86400000000"

text \<open>The values from 0001-01-01T00:00:00 to 9999-12-31T23:59:59.999999.\<close>

definition in_range :: "int \<Rightarrow> bool" where
  "in_range w = (0 \<le> w \<and> w < 3652059 * DAY_US)"

definition toordinal :: "datetime \<Rightarrow> int" where
  "toordinal dt = wall dt div DAY_US + 1"

definition weekday :: "datetime \<Rightarrow> int" where
  "weekday dt = (toordinal dt + 6) mod 7"

definition hour :: "datetime \<Rightarrow> int" where
  "hour dt = (wall dt mod DAY_US) div (3600 * US)"

definition minute :: "datetime \<Rightarrow> int" where
  "minute dt = (wall dt mod (3600 * US)) div (60 * US)"

definition second :: "datetime \<Rightarrow> int" where
  "second dt = (wall dt mod (60 * US)) div US"

definition microsecond :: "datetime \<Rightarrow> int" where
  "microsecond dt = wall dt mod US"

definition is_leap :: "int \<Rightarrow> bool" where
  "is_leap y = (y mod 4 = 0 \<and> (y mod 100 \<noteq> 0 \<or> y mod 400 = 0))"

definition DAYS_IN_MONTH :: "int list" where
  "DAYS_IN_MONTH = [-1, 31, 28, 31, 30, 31, 30, 31, 31, 30, 31, 30, 31]"

definition DAYS_BEFORE_MONTH :: "int list" where
  "DAYS_BEFORE_MONTH = [-1, 0, 31, 59, 90, 120, 151, 181, 212, 243, 273, 304, 334]"

definition days_before_year :: "int \<Rightarrow> int" where
  "days_before_year y = (y - 1) * 365 + (y - 1) div 4 - (y - 1) div 100 + (y - 1) div 400"

definition days_before_month :: "int \<Rightarrow> int \<Rightarrow> int" where
  "days_before_month y m = DAYS_BEFORE_MONTH ! nat m + (if m > 2 \<and> is_leap y then 1 else 0)"

definition ymd2ord :: "int \<Rightarrow> int \<Rightarrow> int \<Rightarrow> int" where
  "ymd2ord y m d = days_before_year y + days_before_month y m + d"

text \<open>The ordinal of a day (0001-01-01 is day 1) back to year, month and day.\<close>

definition ord2ymd :: "int \<Rightarrow> int \<times> int \<times> int" where
  "ord2ymd n0 =
     (let n = n0 - 1;
          n400 = n div 146097; n = n mod 146097;
          n100 = n div 36524; n = n mod 36524;
          n4 = n div 1461; n = n mod 1461;
          n1 = n div 365; n = n mod 365;
          y = n400 * 400 + 1 + n100 * 100 + n4 * 4 + n1
      in if n1 = 4 \<or> n100 = 4 then (y - 1, 12, 31)
         else
           let leapyear = (n1 = 3 \<and> (n4 \<noteq> 24 \<or> n100 = 3));
               month = (n + 50) div 32;
               preceding = DAYS_BEFORE_MONTH ! nat month
                           + (if month > 2 \<and> leapyear then 1 else 0)
           in if preceding > n
              then let month' = month - 1;
                       preceding' = preceding - (DAYS_IN_MONTH ! nat month'
                                      + (if month' = 2 \<and> leapyear then 1 else 0))
                   in (y, month', n - preceding' + 1)
              else (y, month, n - preceding + 1))"

text \<open>The constructor \<open>datetime(y, m, d, hh, mm, ss, us, tzinfo)\<close>.\<close>

definition mk_datetime ::
  "int \<Rightarrow> int \<Rightarrow> int \<Rightarrow> int \<Rightarrow> int \<Rightarrow> int \<Rightarrow> int \<Rightarrow> int option \<Rightarrow> datetime" where
  "mk_datetime y m d hh mm ss us off =
     \<lparr>wall = ((ymd2ord y m d - 1) * 86400 + hh * 3600 + mm * 60 + ss) * US + us,
      utcoffset = off\<rparr>"

definition DAY_NAMES :: "string list" where
  "DAY_NAMES = [''Monday'', ''Tuesday'', ''Wednesday'', ''Thursday'', ''Friday'',
                ''Saturday'', ''Sunday'']"

text \<open>\<open>strftime('%A')\<close>, in the C locale.\<close>

definition strftime_A :: "datetime \<Rightarrow> string" where
  "strftime_A dt = DAY_NAMES ! nat (weekday dt)"

definition format_offset :: "int \<Rightarrow> string" where
  "format_offset off =
     (let sgn = (if off < 0 then ''-'' else ''+'');
          a = \<bar>off\<bar>;
          hh = a div 3600; mm = (a mod 3600) div 60; ss = a mod 60
      in sgn @ zpad 2 hh @ '':'' @ zpad 2 mm @ (if ss \<noteq> 0 then '':'' @ zpad 2 ss else []))"

text \<open>\<open>isoformat(sep)\<close>; \<open>str(dt)\<close> is \<open>isoformat(sep=' ')\<close>.\<close>

definition isoformat_sep :: "string \<Rightarrow> datetime \<Rightarrow> string" where
  "isoformat_sep sep dt =
     (case ord2ymd (toordinal dt) of (y, m, d) \<Rightarrow>
        zpad 4 y @ ''-'' @ zpad 2 m @ ''-'' @ zpad 2 d @ sep
        @ zpad 2 (hour dt) @ '':'' @ zpad 2 (minute dt) @ '':'' @ zpad 2 (second dt)
        @ (if microsecond dt \<noteq> 0 then ''.'' @ zpad 6 (microsecond dt) else [])
        @ (case utcoffset dt of None \<Rightarrow> [] | Some off \<Rightarrow> format_offset off))"

definition isoformat :: "datetime \<Rightarrow> string" where
  "isoformat dt = isoformat_sep ''T'' dt"

definition str_datetime :: "datetime \<Rightarrow> string" where
  "str_datetime dt = isoformat_sep '' '' dt"

text \<open>The point on the UTC time line that an aware value denotes, in microseconds.\<close>

definition instant :: "datetime \<Rightarrow> int option" where
  "instant dt = (case utcoffset dt of None \<Rightarrow> None | Some off \<Rightarrow> Some (wall dt - US * off))"

section \<open>The external collaborators\<close>

text \<open>
  A zone of the timezone database, as the program uses it: the offset in seconds in
  effect at a UTC time (what \<open>fromutc\<close> applies), and the outcome of \<open>localize\<close> on a
  naive wall-clock time (the offset it attaches, or the exception it raises).
\<close>

record zone =
  utcoffset_at :: "int \<Rightarrow> int"
  localize_offset :: "int \<Rightarrow> exn + int"

definition pytz_UTC :: zone where
  "pytz_UTC = \<lparr>utcoffset_at = (\<lambda>u. 0), localize_offset = (\<lambda>w. Inr 0)\<rparr>"

record outbound =
  url :: string
  payload :: json
  headers :: "(string \<times> string) list"

text \<open>
  The response of the booking API: \<open>res.status_code\<close>, \<open>res.text\<close> and the outcome of
  \<open>res.json()\<close>.
\<close>

record upstream =
  status_code :: int
  text_of :: string
  res_json :: "exn + json"

text \<open>
  What the program reads from outside itself: \<open>pytz.timezone\<close>, \<open>dateutil\<close>'s
  \<open>parse(..., fuzzy=True)\<close>, the system's local offset for a naive wall-clock time
  (used by \<open>astimezone\<close> on a naive value only), the environment variable
  \<open>CAL_API_KEY\<close>, the outcome of \<open>int(CAL_EVENT_TYPE_ID)\<close>, \<open>requests.post\<close>, and
  \<open>str\<close> on a float, a list or a dict.
\<close>

record env =
  pytz_timezone :: "json \<Rightarrow> exn + zone"
  date_parse :: "json \<Rightarrow> exn + datetime"
  naive_utcoffset :: "int \<Rightarrow> exn + int"
  CAL_API_KEY :: "string option"
  event_type_id :: "exn + int"
  requests_post :: "outbound \<Rightarrow> exn + upstream"
  str_other :: "json \<Rightarrow> string"

definition py_str :: "env \<Rightarrow> json \<Rightarrow> string" where
  "py_str env v =
     (case v of
        JStr s \<Rightarrow> s
      | JNull \<Rightarrow> ''None''
      | JBool b \<Rightarrow> (if b then ''True'' else ''False'')
      | JInt i \<Rightarrow> str_int i
      | _ \<Rightarrow> str_other env v)"

definition str_opt :: "string option \<Rightarrow> string" where
  "str_opt s = (case s of None \<Rightarrow> ''None'' | Some t \<Rightarrow> t)"

text \<open>
  \<open>dt.astimezone(tz)\<close>: to UTC by the value's own offset, then \<open>tz.fromutc\<close>; either
  step raises \<open>OverflowError\<close> when it leaves the range of \<open>datetime\<close>.
\<close>

definition astimezone :: "env \<Rightarrow> datetime \<Rightarrow> zone \<Rightarrow> exn + datetime" where
  "astimezone env dt tz =
     bindE (case utcoffset dt of Some off \<Rightarrow> Inr off | None \<Rightarrow> naive_utcoffset env (wall dt))
       (\<lambda>off.
          let utc = wall dt - US * off in
          if \<not> in_range utc then Inl (OverflowError ''date value out of range'')
          else
            let off' = utcoffset_at tz utc; local = utc + US * off' in
            if \<not> in_range local then Inl (OverflowError ''date value out of range'')
            else Inr \<lparr>wall = local, utcoffset = Some off'\<rparr>)"

text \<open>\<open>tz.localize(dt)\<close> on a naive value.\<close>

definition localize :: "zone \<Rightarrow> datetime \<Rightarrow> exn + datetime" where
  "localize tz dt =
     bindE (localize_offset tz (wall dt)) (\<lambda>off. Inr \<lparr>wall = wall dt, utcoffset = Some off\<rparr>)"

section \<open>The availability check (app.py and main.py, identical)\<close>

definition is_available_slot :: "env \<Rightarrow> datetime \<Rightarrow> json \<Rightarrow> exn + (bool \<times> string)" where
  "is_available_slot env dt timezone =
     bindE (pytz_timezone env timezone) (\<lambda>tz.
     bindE (astimezone env dt tz) (\<lambda>local_dt.
       let wd = weekday local_dt; h = hour local_dt in
       if wd \<ge> 5 then Inr (False, ''Not available on '' @ strftime_A local_dt)
       else if h < 9 \<or> h \<ge> 17 then
         Inr (False, ''Outside business hours (9 AM - 5 PM). Requested: '' @ str_int h @ '':00'')
       else Inr (True, ''Available'')))"

section \<open>The request handlers\<close>

text \<open>
  A handler receives the outcome of \<open>request.get_json()\<close> and returns its HTTP response
  together with the outbound calls it made. Each handler is written in two parts, around its
  one call of \<open>requests.post\<close>: what it does before the call (an early response, or the call
  to make) and what it does with the upstream response. The \<open>print\<close> calls write to the
  log only; what they evaluate is kept where it can raise.
\<close>

definition internal_error :: "exn \<Rightarrow> response" where
  "internal_error e =
     jsonify 500 [(''error'', JStr ''Internal Server Error''), (''details'', JStr (str_exn e))]"

definition missing_fields :: response where
  "missing_fields = jsonify 400 [(''error'', JStr ''Missing required fields: name, email, time'')]"

definition booking_call :: "env \<Rightarrow> string \<Rightarrow> int \<Rightarrow> json \<Rightarrow> json \<Rightarrow> json \<Rightarrow> outbound" where
  "booking_call env iso_date eid name email user_timezone =
     \<lparr>url = ''https://api.cal.com/v2/bookings'',
      payload = JObj [(''start'', JStr iso_date),
                      (''eventTypeId'', JInt eid),
                      (''attendee'', JObj [(''name'', name), (''email'', email),
                                           (''timeZone'', user_timezone)])],
      headers = [(''Authorization'', ''Bearer '' @ str_opt (CAL_API_KEY env)),
                 (''Content-Type'', ''application/json''),
                 (''cal-api-version'', ''2024-08-13'')]\<rparr>"

subsection \<open>main.py: \<open>schedule_meeting_tool\<close>\<close>

text \<open>The inner \<open>try\<close> block that parses the time in the user's timezone.\<close>

definition tool_normalize :: "env \<Rightarrow> zone \<Rightarrow> json \<Rightarrow> exn + datetime" where
  "tool_normalize env tz time_str =
     bindE (date_parse env time_str) (\<lambda>parsed_date.
       if utcoffset parsed_date = None then localize tz parsed_date
       else astimezone env parsed_date tz)"

definition tool_prepare :: "env \<Rightarrow> exn + json \<Rightarrow> exn + (response + outbound \<times> string)" where
  "tool_prepare env get_json =
     bindE get_json (\<lambda>data.
     bindE (py_get data ''name'' JNull) (\<lambda>name.
     bindE (py_get data ''email'' JNull) (\<lambda>email.
     bindE (py_get data ''time'' JNull) (\<lambda>time_str.
     bindE (py_get data ''duration'' (JInt 30)) (\<lambda>duration.
     bindE (py_get data ''timezone'' (JStr ''Europe/Amsterdam'')) (\<lambda>user_timezone.
       if \<not> truthy name \<or> \<not> truthy email \<or> \<not> truthy time_str then Inr (Inl missing_fields)
       else
         case pytz_timezone env user_timezone of
           Inl (UnknownTimeZoneError m) \<Rightarrow>
             Inr (Inl (jsonify 400
               [(''error'', JStr (''Invalid timezone: '' @ py_str env user_timezone))]))
         | Inl e \<Rightarrow> Inl e
         | Inr tz \<Rightarrow>
            (case tool_normalize env tz time_str of
               Inl e \<Rightarrow>
                 Inr (Inl (jsonify 400
                   [(''error'', JStr (''Could not parse date: '' @ py_str env time_str)),
                    (''details'', JStr (str_exn e))]))
             | Inr parsed_date \<Rightarrow>
                 bindE (is_available_slot env parsed_date user_timezone) (\<lambda>(is_avail, avail_msg).
                   if \<not> is_avail then
                     Inr (Inl (jsonify 400
                       [(''error'', JStr ''Requested time is not available''),
                        (''reason'', JStr avail_msg),
                        (''availability'',
                         JStr ''Monday-Friday, 9:00 AM - 5:00 PM in your timezone'')]))
                   else
                     bindE (astimezone env parsed_date pytz_UTC) (\<lambda>utc_date.
                       let iso_date = isoformat utc_date in
                       bindE (event_type_id env) (\<lambda>eid.
                         Inr (Inr (booking_call env iso_date eid name email user_timezone,
                                   iso_date))))))))))))"

definition tool_conclude :: "string \<Rightarrow> upstream \<Rightarrow> exn + response" where
  "tool_conclude iso_date res =
     bindE (res_json res) (\<lambda>booking_data.
     bindE (py_get booking_data ''status'' JNull) (\<lambda>st.
       if status_code res \<noteq> 201 \<or> st \<noteq> JStr ''success'' then
         Inr (jsonify 500 [(''error'', JStr ''Failed to create Cal.com booking''),
                           (''details'', booking_data)])
       else
         bindE (py_get booking_data ''data'' JNull) (\<lambda>d.
           Inr (jsonify 200 [(''success'', JBool True),
                             (''message'', JStr (''Meeting scheduled for '' @ iso_date)),
                             (''booking'', d)]))))"

definition schedule_meeting_tool :: "env \<Rightarrow> exn + json \<Rightarrow> response \<times> outbound list" where
  "schedule_meeting_tool env get_json =
     (case tool_prepare env get_json of
        Inl e \<Rightarrow> (internal_error e, [])
      | Inr (Inl r) \<Rightarrow> (r, [])
      | Inr (Inr (call, iso_date)) \<Rightarrow>
          (case bindE (requests_post env call) (tool_conclude iso_date) of
             Inl e \<Rightarrow> (internal_error e, [call])
           | Inr r \<Rightarrow> (r, [call])))"

subsection \<open>app.py: \<open>schedule_meeting\<close>\<close>

text \<open>Parsing, and the default to UTC for a naive result.\<close>

definition app_aware :: "datetime \<Rightarrow> exn + datetime" where
  "app_aware parsed_date =
     (if utcoffset parsed_date = None then localize pytz_UTC parsed_date else Inr parsed_date)"

definition app_prepare :: "env \<Rightarrow> exn + json \<Rightarrow> exn + (response + outbound \<times> datetime)" where
  "app_prepare env get_json =
     bindE get_json (\<lambda>data.
     bindE (py_get data ''name'' JNull) (\<lambda>name.
     bindE (py_get data ''email'' JNull) (\<lambda>email.
     bindE (py_get data ''time'' JNull) (\<lambda>time_str.
     bindE (py_get data ''duration'' (JInt 30)) (\<lambda>duration.
     bindE (py_get data ''timezone'' (JStr ''UTC'')) (\<lambda>user_timezone.
       if \<not> truthy name \<or> \<not> truthy email \<or> \<not> truthy time_str then Inr (Inl missing_fields)
       else
         case date_parse env time_str of
           Inl e \<Rightarrow>
             Inr (Inl (jsonify 400
               [(''error'', JStr (''Could not parse date: '' @ py_str env time_str))]))
         | Inr parsed \<Rightarrow>
             bindE (app_aware parsed) (\<lambda>parsed_date.
             bindE (is_available_slot env parsed_date user_timezone) (\<lambda>(is_avail, avail_msg).
               if \<not> is_avail then
                 Inr (Inl (jsonify 400
                   [(''error'', JStr ''Requested time is not available''),
                    (''reason'', JStr avail_msg),
                    (''availability'', JStr ''Monday-Friday, 9:00 AM - 5:00 PM UTC'')]))
               else
                 let iso_date = isoformat parsed_date in
                 bindE (event_type_id env) (\<lambda>eid.
                   Inr (Inr (booking_call env iso_date eid name email user_timezone,
                             parsed_date)))))))))))"

text \<open>What the log lines of a successful booking evaluate, in their order.\<close>

definition log_booking :: "json \<Rightarrow> exn + unit" where
  "log_booking data =
     bindE (py_get data ''title'' JNull) (\<lambda>_.
     bindE (py_get data ''bookingFieldsResponses'' (JObj [])) (\<lambda>r.
     bindE (py_get r ''name'' JNull) (\<lambda>_.
     bindE (py_get data ''bookingFieldsResponses'' (JObj [])) (\<lambda>r.
     bindE (py_get r ''email'' JNull) (\<lambda>_.
     bindE (py_get data ''start'' JNull) (\<lambda>_.
     bindE (py_get data ''end'' JNull) (\<lambda>_.
     bindE (py_get data ''duration'' JNull) (\<lambda>_.
     bindE (py_get data ''meetingUrl'' JNull) (\<lambda>_.
     bindE (py_get data ''id'' JNull) (\<lambda>_. Inr ()))))))))))"

definition app_success :: "datetime \<Rightarrow> json \<Rightarrow> response" where
  "app_success parsed_date booking_data =
     jsonify 200 [(''success'', JBool True),
                  (''message'', JStr (''Meeting scheduled for '' @ str_datetime parsed_date)),
                  (''booking'', booking_data)]"

definition app_conclude :: "datetime \<Rightarrow> upstream \<Rightarrow> exn + response" where
  "app_conclude parsed_date res =
     bindE (res_json res) (\<lambda>booking_data.
     bindE (py_get booking_data ''status'' JNull) (\<lambda>st.
       if st = JStr ''success'' then
         bindE (py_get booking_data ''data'' (JObj [])) (\<lambda>data.
         bindE (log_booking data) (\<lambda>_. Inr (app_success parsed_date booking_data)))
       else if status_code res \<noteq> 200 then
         Inr (jsonify 500 [(''error'', JStr ''Failed to create Cal.com booking''),
                           (''details'', JStr (text_of res))])
       else Inr (app_success parsed_date booking_data)))"

definition schedule_meeting :: "env \<Rightarrow> exn + json \<Rightarrow> response \<times> outbound list" where
  "schedule_meeting env get_json =
     (case app_prepare env get_json of
        Inl e \<Rightarrow> (internal_error e, [])
      | Inr (Inl r) \<Rightarrow> (r, [])
      | Inr (Inr (call, parsed_date)) \<Rightarrow>
          (case bindE (requests_post env call) (app_conclude parsed_date) of
             Inl e \<Rightarrow> (internal_error e, [call])
           | Inr r \<Rightarrow> (r, [call])))"

section \<open>A sample environment\<close>

text \<open>
  An excerpt of the collaborators, for running the handlers on concrete requests: the zones
  UTC and America/New_York (with the rules of the year 2025: daylight saving time from
  2025-03-09T07:00 to 2025-11-02T06:00 UTC), a parser that knows a few time strings, a
  configured event type, and a booking API that accepts every call.
\<close>

definition sample_NY :: zone where
  "sample_NY =
     \<lparr>utcoffset_at = (\<lambda>u.
        if wall (mk_datetime 2025 3 9 7 0 0 0 None) \<le> u \<and> u < wall (mk_datetime 2025 11 2 6 0 0 0 None)
        then - 14400 else - 18000),
      localize_offset = (\<lambda>w.
        if wall (mk_datetime 2025 3 9 3 0 0 0 None) \<le> w \<and> w < wall (mk_datetime 2025 11 2 1 0 0 0 None)
        then Inr (- 14400) else Inr (- 18000))\<rparr>"

definition sample_timezone :: "json \<Rightarrow> exn + zone" where
  "sample_timezone z =
     (case z of
        JStr s \<Rightarrow>
          if s = ''UTC'' then Inr pytz_UTC
          else if s = ''America/New_York'' then Inr sample_NY
          else Inl (UnknownTimeZoneError ([CHR 0x27] @ s @ [CHR 0x27]))
      | JNull \<Rightarrow> Inl (UnknownTimeZoneError ''None'')
      | _ \<Rightarrow> Inl (AttributeError
                 ([CHR 0x27] @ type_name z @ [CHR 0x27] @ '' object has no attribute ''
                  @ [CHR 0x27] @ ''upper'' @ [CHR 0x27])))"

definition sample_parse :: "json \<Rightarrow> exn + datetime" where
  "sample_parse t =
     (case t of
        JStr s \<Rightarrow>
          if s = ''2025-01-10 10:00'' then Inr (mk_datetime 2025 1 10 10 0 0 0 None)
          else if s = ''2025-01-10 08:59'' then Inr (mk_datetime 2025 1 10 8 59 0 0 None)
          else if s = ''2025-01-11 10:00'' then Inr (mk_datetime 2025 1 11 10 0 0 0 None)
          else if s = ''2025-01-10T12:00:00+02:00''
            then Inr (mk_datetime 2025 1 10 12 0 0 0 (Some 7200))
          else Inl (OtherException (''Unknown string format: '' @ s))
      | _ \<Rightarrow> Inl (OtherException
                 (''Parser must be a string or character stream, not '' @ type_name t)))"

definition sample_booked :: upstream where
  "sample_booked =
     \<lparr>status_code = 201, text_of = ''{\"status\":\"success\",\"data\":{\"id\":7}}'',
      res_json = Inr (JObj [(''status'', JStr ''success''), (''data'', JObj [(''id'', JInt 7)])])\<rparr>"

definition sample_env :: env where
  "sample_env =
     \<lparr>pytz_timezone = sample_timezone,
      date_parse = sample_parse,
      naive_utcoffset = (\<lambda>w. Inr 0),
      CAL_API_KEY = Some ''cal_live_key'',
      event_type_id = Inr 42,
      requests_post = (\<lambda>call. Inr sample_booked),
      str_other = (\<lambda>v. ''...'')\<rparr>"

text \<open>The same, with a booking API that answers HTTP 200 and a body whose status is an error.\<close>

definition sample_refused :: upstream where
  "sample_refused =
     \<lparr>status_code = 200, text_of = ''{\"status\":\"error\"}'',
      res_json = Inr (JObj [(''status'', JStr ''error'')])\<rparr>"

definition sample_env_refusing :: env where
  "sample_env_refusing =
     \<lparr>pytz_timezone = sample_timezone,
      date_parse = sample_parse,
      naive_utcoffset = (\<lambda>w. Inr 0),
      CAL_API_KEY = Some ''cal_live_key'',
      event_type_id = Inr 42,
      requests_post = (\<lambda>call. Inr sample_refused),
      str_other = (\<lambda>v. ''...'')\<rparr>"

definition sample_request :: "string \<Rightarrow> string \<Rightarrow> json" where
  "sample_request time_str tz =
     JObj [(''name'', JStr ''Ada''), (''email'', JStr ''ada@example.org''),
           (''time'', JStr time_str), (''timezone'', JStr tz)]"

section \<open>Basic facts\<close>

lemma bindE_Inl [simp]: "bindE (Inl e) f = Inl e"
  by (simp add: bindE_def)

lemma bindE_Inr [simp]: "bindE (Inr v) f = f v"
  by (simp add: bindE_def)

lemma py_get_obj [simp]: "py_get (JObj kvs) key dflt = Inr (dict_get kvs key dflt)"
  by (simp add: py_get_def)

lemmas calendar_defs =
  mk_datetime_def ymd2ord_def days_before_year_def days_before_month_def DAYS_BEFORE_MONTH_def
  US_def DAY_US_def is_leap_def hour_def minute_def weekday_def toordinal_def in_range_def



lemma astimezone_aware:
  assumes "utcoffset dt = Some off"
    and "in_range (wall dt - US * off)"
    and "in_range (wall dt - US * off + US * utcoffset_at tz (wall dt - US * off))"
  shows "astimezone env dt tz =
           Inr \<lparr>wall = wall dt - US * off + US * utcoffset_at tz (wall dt - US * off),
                utcoffset = Some (utcoffset_at tz (wall dt - US * off))\<rparr>"
  using assms by (simp add: astimezone_def Let_def)

lemma astimezone_UTC:
  assumes "astimezone env dt pytz_UTC = Inr u" and "utcoffset dt = Some off"
  shows "utcoffset u = Some 0 \<and> instant u = instant dt"
  using assms
  by (auto simp: astimezone_def pytz_UTC_def instant_def Let_def split: if_splits)

lemma format_offset_zero: "format_offset 0 = ''+00:00''"
  by code_simp

lemma isoformat_UTC_suffix:
  assumes "utcoffset u = Some 0"
  shows "\<exists>s. isoformat u = s @ ''+00:00''"
proof -
  obtain y m d where "ord2ymd (toordinal u) = (y, m, d)"
    by (cases "ord2ymd (toordinal u)") auto
  with assms have "isoformat u =
      (zpad 4 y @ ''-'' @ zpad 2 m @ ''-'' @ zpad 2 d @ ''T''
        @ zpad 2 (hour u) @ '':'' @ zpad 2 (minute u) @ '':'' @ zpad 2 (second u)
        @ (if microsecond u \<noteq> 0 then ''.'' @ zpad 6 (microsecond u) else [])) @ ''+00:00''"
    by (simp add: isoformat_def isoformat_sep_def format_offset_zero)
  then show ?thesis by blast
qed

lemma booking_call_start:
  "payload (booking_call env iso_date eid name email tzv)
     = JObj [(''start'', JStr iso_date), (''eventTypeId'', JInt eid),
             (''attendee'', JObj [(''name'', name), (''email'', email), (''timeZone'', tzv)])]"
  by (simp add: booking_call_def)

section \<open>The availability window\<close>






section \<open>Required fields\<close>

lemma tool_prepare_missing:
  assumes "\<not> truthy (dict_get kvs ''name'' JNull) \<or> \<not> truthy (dict_get kvs ''email'' JNull)
           \<or> \<not> truthy (dict_get kvs ''time'' JNull)"
  shows "tool_prepare env (Inr (JObj kvs)) = Inr (Inl missing_fields)"
  using assms unfolding tool_prepare_def by auto

lemma app_prepare_missing:
  assumes "\<not> truthy (dict_get kvs ''name'' JNull) \<or> \<not> truthy (dict_get kvs ''email'' JNull)
           \<or> \<not> truthy (dict_get kvs ''time'' JNull)"
  shows "app_prepare env (Inr (JObj kvs)) = Inr (Inl missing_fields)"
  using assms unfolding app_prepare_def by auto

lemma tool_missing:
  assumes "\<not> truthy (dict_get kvs ''name'' JNull) \<or> \<not> truthy (dict_get kvs ''email'' JNull)
           \<or> \<not> truthy (dict_get kvs ''time'' JNull)"
  shows "schedule_meeting_tool env (Inr (JObj kvs)) = (missing_fields, [])"
  by (simp add: schedule_meeting_tool_def tool_prepare_missing [OF assms])

lemma app_missing:
  assumes "\<not> truthy (dict_get kvs ''name'' JNull) \<or> \<not> truthy (dict_get kvs ''email'' JNull)
           \<or> \<not> truthy (dict_get kvs ''time'' JNull)"
  shows "schedule_meeting env (Inr (JObj kvs)) = (missing_fields, [])"
  by (simp add: schedule_meeting_def app_prepare_missing [OF assms])

text \<open>
  Claim C7, as the code has it. For every request body that is a JSON object in which name,
  email or time is absent, each of the two handlers answers HTTP 400 with the error
  ``Missing required fields: name, email, time'', whichever of the fields are missing, and
  makes no outbound booking call. A JSON body that is not an object (null, a boolean, a
  number, a string or an array) has none of the fields: there \<open>data.get\<close> raises, the
  catch-all answers HTTP 500 ``Internal Server Error'', and no outbound booking call is made.
\<close>

theorem missing_fields_rejected:
  "(map_of kvs ''name'' = None \<or> map_of kvs ''email'' = None \<or> map_of kvs ''time'' = None
     \<longrightarrow> schedule_meeting_tool env (Inr (JObj kvs))
           = (jsonify 400 [(''error'', JStr ''Missing required fields: name, email, time'')], [])
       \<and> schedule_meeting env (Inr (JObj kvs))
           = (jsonify 400 [(''error'', JStr ''Missing required fields: name, email, time'')], []))
   \<and> ((\<forall>items. data \<noteq> JObj items)
     \<longrightarrow> schedule_meeting_tool env (Inr data)
           = (jsonify 500
                [(''error'', JStr ''Internal Server Error''),
                 (''details'', JStr ([CHR 0x27] @ type_name data @ [CHR 0x27]
                    @ '' object has no attribute '' @ [CHR 0x27] @ ''get'' @ [CHR 0x27]))], [])
       \<and> schedule_meeting env (Inr data)
           = (jsonify 500
                [(''error'', JStr ''Internal Server Error''),
                 (''details'', JStr ([CHR 0x27] @ type_name data @ [CHR 0x27]
                    @ '' object has no attribute '' @ [CHR 0x27] @ ''get'' @ [CHR 0x27]))], []))"
proof (intro conjI impI)
  assume "map_of kvs ''name'' = None \<or> map_of kvs ''email'' = None \<or> map_of kvs ''time'' = None"
  then have m: "\<not> truthy (dict_get kvs ''name'' JNull) \<or> \<not> truthy (dict_get kvs ''email'' JNull)
           \<or> \<not> truthy (dict_get kvs ''time'' JNull)"
    by (auto simp: dict_get_def)
  from m show "schedule_meeting_tool env (Inr (JObj kvs))
           = (jsonify 400 [(''error'', JStr ''Missing required fields: name, email, time'')], [])"
    by (simp add: tool_missing missing_fields_def)
  from m show "schedule_meeting env (Inr (JObj kvs))
           = (jsonify 400 [(''error'', JStr ''Missing required fields: name, email, time'')], [])"
    by (simp add: app_missing missing_fields_def)
next
  assume n: "\<forall>items. data \<noteq> JObj items"
  then have g: "py_get data ''name'' JNull
      = Inl (AttributeError ([CHR 0x27] @ type_name data @ [CHR 0x27]
               @ '' object has no attribute '' @ [CHR 0x27] @ ''get'' @ [CHR 0x27]))"
    by (cases data) (simp_all add: py_get_def)
  from g show "schedule_meeting_tool env (Inr data)
           = (jsonify 500
                [(''error'', JStr ''Internal Server Error''),
                 (''details'', JStr ([CHR 0x27] @ type_name data @ [CHR 0x27]
                    @ '' object has no attribute '' @ [CHR 0x27] @ ''get'' @ [CHR 0x27]))], [])"
    by (simp add: schedule_meeting_tool_def tool_prepare_def internal_error_def)
  from g show "schedule_meeting env (Inr data)
           = (jsonify 500
                [(''error'', JStr ''Internal Server Error''),
                 (''details'', JStr ([CHR 0x27] @ type_name data @ [CHR 0x27]
                    @ '' object has no attribute '' @ [CHR 0x27] @ ''get'' @ [CHR 0x27]))], [])"
    by (simp add: schedule_meeting_def app_prepare_def internal_error_def)
qed

text \<open>
  Claim C7 at a request without an email, and at the body \<open>null\<close>.
\<close>

theorem missing_fields_rejected_witness:
  "(map_of [(''name'', JStr ''Ada''), (''time'', JStr ''2025-01-10 10:00'')] ''name'' = None
    \<or> map_of [(''name'', JStr ''Ada''), (''time'', JStr ''2025-01-10 10:00'')] ''email'' = None
    \<or> map_of [(''name'', JStr ''Ada''), (''time'', JStr ''2025-01-10 10:00'')] ''time'' = None)
   \<and> status (fst (schedule_meeting_tool sample_env
         (Inr (JObj [(''name'', JStr ''Ada''), (''time'', JStr ''2025-01-10 10:00'')])))) = 400
   \<and> snd (schedule_meeting sample_env
         (Inr (JObj [(''name'', JStr ''Ada''), (''time'', JStr ''2025-01-10 10:00'')]))) = []
   \<and> status (fst (schedule_meeting_tool sample_env (Inr JNull))) = 500
   \<and> snd (schedule_meeting sample_env (Inr JNull)) = []"
proof -
  have n: "\<forall>items. JNull \<noteq> JObj items"
    by simp
  from missing_fields_rejected
         [of "[(''name'', JStr ''Ada''), (''time'', JStr ''2025-01-10 10:00'')]" sample_env JNull]
    n
  show ?thesis
    by (simp add: jsonify_def)
qed

text \<open>
  Claim C7 fails at a JSON body that is not an object: for the body \<open>[]\<close>, in which name, email
  and time are absent, both handlers answer HTTP 500 ``Internal Server Error'', not HTTP 400.
\<close>

theorem non_object_body_counterexample:
  "schedule_meeting_tool sample_env (Inr (JArr []))
     = (jsonify 500
          [(''error'', JStr ''Internal Server Error''),
           (''details'', JStr ([CHR 0x27] @ ''list'' @ [CHR 0x27] @ '' object has no attribute ''
              @ [CHR 0x27] @ ''get'' @ [CHR 0x27]))], [])
   \<and> schedule_meeting sample_env (Inr (JArr []))
     = (jsonify 500
          [(''error'', JStr ''Internal Server Error''),
           (''details'', JStr ([CHR 0x27] @ ''list'' @ [CHR 0x27] @ '' object has no attribute ''
              @ [CHR 0x27] @ ''get'' @ [CHR 0x27]))], [])
   \<and> status (fst (schedule_meeting_tool sample_env (Inr (JArr [])))) = 500
   \<and> status (fst (schedule_meeting sample_env (Inr (JArr [])))) = 500"
  by (simp add: schedule_meeting_tool_def schedule_meeting_def tool_prepare_def app_prepare_def
        py_get_def internal_error_def jsonify_def)

text \<open>
  Claim C10. When name, email or time is present but is the empty string, each of the two
  handlers answers with the same HTTP 400 response as for an absent field, whatever the
  collaborators would do, and makes no outbound booking call: the presence check is a check of
  the truth value.
\<close>

theorem empty_fields_rejected:
  assumes "map_of kvs ''name'' = Some (JStr '''') \<or> map_of kvs ''email'' = Some (JStr '''')
           \<or> map_of kvs ''time'' = Some (JStr '''')"
  shows "schedule_meeting_tool env (Inr (JObj kvs))
           = (jsonify 400 [(''error'', JStr ''Missing required fields: name, email, time'')], [])
       \<and> schedule_meeting env (Inr (JObj kvs))
           = (jsonify 400 [(''error'', JStr ''Missing required fields: name, email, time'')], [])"
proof -
  from assms have "\<not> truthy (dict_get kvs ''name'' JNull) \<or> \<not> truthy (dict_get kvs ''email'' JNull)
           \<or> \<not> truthy (dict_get kvs ''time'' JNull)"
    by (auto simp: dict_get_def)
  then show ?thesis
    by (simp add: tool_missing app_missing missing_fields_def)
qed

text \<open>
  Claim C10 at a request whose email is the empty string.
\<close>

theorem empty_fields_rejected_witness:
  "(map_of [(''name'', JStr ''Ada''), (''email'', JStr ''''), (''time'', JStr ''2025-01-10 10:00'')]
      ''email'' = Some (JStr ''''))
   \<and> schedule_meeting_tool sample_env
        (Inr (JObj [(''name'', JStr ''Ada''), (''email'', JStr ''''),
                    (''time'', JStr ''2025-01-10 10:00'')]))
      = (\<lparr>status = 400,
           body = JObj [(''error'', JStr ''Missing required fields: name, email, time'')]\<rparr>, [])
   \<and> schedule_meeting sample_env
        (Inr (JObj [(''name'', JStr ''Ada''), (''email'', JStr ''''),
                    (''time'', JStr ''2025-01-10 10:00'')]))
      = (\<lparr>status = 400,
           body = JObj [(''error'', JStr ''Missing required fields: name, email, time'')]\<rparr>, [])"
  using empty_fields_rejected [of "[(''name'', JStr ''Ada''), (''email'', JStr ''''),
                    (''time'', JStr ''2025-01-10 10:00'')]" sample_env]
  by (simp add: jsonify_def)

section \<open>The duration field\<close>

lemma dict_get_cong:
  assumes "\<forall>k. k \<noteq> ''duration'' \<longrightarrow> map_of kvs k = map_of kvs' k" and "key \<noteq> ''duration''"
  shows "dict_get kvs key dflt = dict_get kvs' key dflt"
  using assms by (simp add: dict_get_def)

lemma tool_prepare_duration:
  assumes "\<forall>k. k \<noteq> ''duration'' \<longrightarrow> map_of kvs k = map_of kvs' k"
  shows "tool_prepare env (Inr (JObj kvs)) = tool_prepare env (Inr (JObj kvs'))"
proof -
  have "dict_get kvs ''name'' JNull = dict_get kvs' ''name'' JNull"
    and "dict_get kvs ''email'' JNull = dict_get kvs' ''email'' JNull"
    and "dict_get kvs ''time'' JNull = dict_get kvs' ''time'' JNull"
    and "dict_get kvs ''timezone'' (JStr ''Europe/Amsterdam'')
           = dict_get kvs' ''timezone'' (JStr ''Europe/Amsterdam'')"
    by (rule dict_get_cong [OF assms], simp)+
  then show ?thesis
    unfolding tool_prepare_def by simp
qed

lemma app_prepare_duration:
  assumes "\<forall>k. k \<noteq> ''duration'' \<longrightarrow> map_of kvs k = map_of kvs' k"
  shows "app_prepare env (Inr (JObj kvs)) = app_prepare env (Inr (JObj kvs'))"
proof -
  have "dict_get kvs ''name'' JNull = dict_get kvs' ''name'' JNull"
    and "dict_get kvs ''email'' JNull = dict_get kvs' ''email'' JNull"
    and "dict_get kvs ''time'' JNull = dict_get kvs' ''time'' JNull"
    and "dict_get kvs ''timezone'' (JStr ''UTC'') = dict_get kvs' ''timezone'' (JStr ''UTC'')"
    by (rule dict_get_cong [OF assms], simp)+
  then show ?thesis
    unfolding app_prepare_def by simp
qed

text \<open>
  Claim C9. Two request bodies that agree on every key other than \<open>duration\<close> (whatever its
  value, present or absent) get, from each handler and against the same collaborators, the
  same HTTP response and the same outbound calls.
\<close>

theorem duration_has_no_influence:
  assumes "\<forall>k. k \<noteq> ''duration'' \<longrightarrow> map_of kvs k = map_of kvs' k"
  shows "schedule_meeting_tool env (Inr (JObj kvs)) = schedule_meeting_tool env (Inr (JObj kvs'))
       \<and> schedule_meeting env (Inr (JObj kvs)) = schedule_meeting env (Inr (JObj kvs'))"
  by (simp add: schedule_meeting_tool_def schedule_meeting_def
        tool_prepare_duration [OF assms] app_prepare_duration [OF assms])

text \<open>
  Claim C9 at a request with a duration of 60 and the same request without a duration.
\<close>

theorem duration_has_no_influence_witness:
  "schedule_meeting_tool sample_env
        (Inr (JObj [(''duration'', JInt 60), (''name'', JStr ''Ada''), (''email'', JStr ''ada@example.org''),
              (''time'', JStr ''2025-01-10 10:00''), (''timezone'', JStr ''America/New_York'')]))
      = schedule_meeting_tool sample_env
        (Inr (JObj [(''name'', JStr ''Ada''), (''email'', JStr ''ada@example.org''),
              (''time'', JStr ''2025-01-10 10:00''), (''timezone'', JStr ''America/New_York'')]))
   \<and> schedule_meeting sample_env
        (Inr (JObj [(''duration'', JInt 60), (''name'', JStr ''Ada''), (''email'', JStr ''ada@example.org''),
              (''time'', JStr ''2025-01-10 10:00''), (''timezone'', JStr ''America/New_York'')]))
      = schedule_meeting sample_env
        (Inr (JObj [(''name'', JStr ''Ada''), (''email'', JStr ''ada@example.org''),
              (''time'', JStr ''2025-01-10 10:00''), (''timezone'', JStr ''America/New_York'')]))"
proof -
  have h: "\<forall>k. k \<noteq> ''duration'' \<longrightarrow>
      map_of [(''duration'', JInt 60), (''name'', JStr ''Ada''), (''email'', JStr ''ada@example.org''),
              (''time'', JStr ''2025-01-10 10:00''), (''timezone'', JStr ''America/New_York'')] k
      = map_of [(''name'', JStr ''Ada''), (''email'', JStr ''ada@example.org''),
              (''time'', JStr ''2025-01-10 10:00''), (''timezone'', JStr ''America/New_York'')] k"
    by simp
  from duration_has_no_influence [OF h, of sample_env] show ?thesis .
qed

section \<open>Naive times\<close>

lemma tool_normalize_aware:
  assumes "tool_normalize env tz time_str = Inr parsed_date"
  shows "\<exists>off. utcoffset parsed_date = Some off"
  using assms
  by (auto simp: tool_normalize_def localize_def astimezone_def bindE_def Let_def
      split: sum.splits if_splits option.splits)

lemma tool_calls_after_prepare:
  assumes "tool_prepare env req = Inr (Inr (call, iso_date))"
  shows "snd (schedule_meeting_tool env req) = [call]"
  using assms by (simp add: schedule_meeting_tool_def split: sum.splits)

lemma app_calls_after_prepare:
  assumes "app_prepare env req = Inr (Inr (call, parsed_date))"
  shows "snd (schedule_meeting env req) = [call]"
  using assms by (simp add: schedule_meeting_def split: sum.splits)

lemma is_available_slot_in_range:
  assumes "is_available_slot env dt zn = Inr r" and "utcoffset dt = Some off"
  shows "in_range (wall dt - US * off)"
  using assms
  by (auto simp: is_available_slot_def astimezone_def bindE_def Let_def
      split: sum.splits if_splits)

lemma astimezone_UTC_value:
  assumes "utcoffset dt = Some off" and "in_range (wall dt - US * off)"
  shows "astimezone env dt pytz_UTC = Inr \<lparr>wall = wall dt - US * off, utcoffset = Some 0\<rparr>"
  using assms by (simp add: astimezone_def pytz_UTC_def Let_def)

text \<open>
  Claim C2, as the code has it. For a request with name, email and time whose time string
  parses to a naive value: \<open>schedule_meeting_tool\<close> (main.py) takes it as wall-clock time in
  the request's declared timezone (the zone that the timezone database gives for the request's
  \<open>timezone\<close>, with the offset that its \<open>localize\<close> attaches). The availability check runs on
  that value, and the booking call's \<open>start\<close> is the UTC string of that wall-clock time minus
  that offset, so that 2025-01-10 10:00 at -05:00 is sent as 2025-01-10T15:00:00+00:00.
  \<open>schedule_meeting\<close> (app.py) takes the naive value as UTC instead, whatever the declared
  timezone: the check runs on the wall-clock time at offset 0 and \<open>start\<close> is its string.
\<close>

theorem naive_time_declared_zone:
  assumes "truthy (dict_get kvs ''name'' JNull)"
    and "truthy (dict_get kvs ''email'' JNull)"
    and "truthy (dict_get kvs ''time'' JNull)"
    and "date_parse env (dict_get kvs ''time'' JNull) = Inr parsed"
    and "utcoffset parsed = None"
    and "event_type_id env = Inr eid"
  shows
    "(pytz_timezone env (dict_get kvs ''timezone'' (JStr ''Europe/Amsterdam'')) = Inr tz
        \<and> localize_offset tz (wall parsed) = Inr off
        \<and> is_available_slot env \<lparr>wall = wall parsed, utcoffset = Some off\<rparr>
             (dict_get kvs ''timezone'' (JStr ''Europe/Amsterdam'')) = Inr (True, msg)
      \<longrightarrow> snd (schedule_meeting_tool env (Inr (JObj kvs)))
            = [booking_call env
                 (isoformat \<lparr>wall = wall parsed - US * off, utcoffset = Some 0\<rparr>) eid
                 (dict_get kvs ''name'' JNull) (dict_get kvs ''email'' JNull)
                 (dict_get kvs ''timezone'' (JStr ''Europe/Amsterdam''))])
   \<and> (pytz_timezone env (dict_get kvs ''timezone'' (JStr ''Europe/Amsterdam'')) = Inr tz
        \<and> localize_offset tz (wall parsed) = Inr off
        \<and> is_available_slot env \<lparr>wall = wall parsed, utcoffset = Some off\<rparr>
             (dict_get kvs ''timezone'' (JStr ''Europe/Amsterdam'')) = Inr (False, msg)
      \<longrightarrow> schedule_meeting_tool env (Inr (JObj kvs))
            = (jsonify 400
                 [(''error'', JStr ''Requested time is not available''),
                  (''reason'', JStr msg),
                  (''availability'', JStr ''Monday-Friday, 9:00 AM - 5:00 PM in your timezone'')],
               []))
   \<and> (is_available_slot env \<lparr>wall = wall parsed, utcoffset = Some 0\<rparr>
             (dict_get kvs ''timezone'' (JStr ''UTC'')) = Inr (True, msg)
      \<longrightarrow> snd (schedule_meeting env (Inr (JObj kvs)))
            = [booking_call env (isoformat \<lparr>wall = wall parsed, utcoffset = Some 0\<rparr>) eid
                 (dict_get kvs ''name'' JNull) (dict_get kvs ''email'' JNull)
                 (dict_get kvs ''timezone'' (JStr ''UTC''))])
   \<and> (is_available_slot env \<lparr>wall = wall parsed, utcoffset = Some 0\<rparr>
             (dict_get kvs ''timezone'' (JStr ''UTC'')) = Inr (False, msg)
      \<longrightarrow> schedule_meeting env (Inr (JObj kvs))
            = (jsonify 400
                 [(''error'', JStr ''Requested time is not available''),
                  (''reason'', JStr msg),
                  (''availability'', JStr ''Monday-Friday, 9:00 AM - 5:00 PM UTC'')],
               []))
   \<and> (wall parsed = wall (mk_datetime 2025 1 10 10 0 0 0 None) \<and> off = - 18000
      \<longrightarrow> isoformat \<lparr>wall = wall parsed - US * off, utcoffset = Some 0\<rparr>
            = ''2025-01-10T15:00:00+00:00'')"
proof (intro conjI impI)
  let ?tzv = "dict_get kvs ''timezone'' (JStr ''Europe/Amsterdam'')"
  let ?nd = "\<lparr>wall = wall parsed, utcoffset = Some off\<rparr>"
  assume h: "pytz_timezone env ?tzv = Inr tz \<and> localize_offset tz (wall parsed) = Inr off
        \<and> is_available_slot env ?nd ?tzv = Inr (True, msg)"
  have n: "tool_normalize env tz (dict_get kvs ''time'' JNull) = Inr ?nd"
    using assms h by (simp add: tool_normalize_def localize_def)
  have "in_range (wall ?nd - US * off)"
    using h by (intro is_available_slot_in_range [of env ?nd ?tzv "(True, msg)"]) simp_all
  then have u: "astimezone env ?nd pytz_UTC
                  = Inr \<lparr>wall = wall parsed - US * off, utcoffset = Some 0\<rparr>"
    using astimezone_UTC_value [of ?nd off env] by simp
  have "tool_prepare env (Inr (JObj kvs)) =
          Inr (Inr (booking_call env
                 (isoformat \<lparr>wall = wall parsed - US * off, utcoffset = Some 0\<rparr>) eid
                 (dict_get kvs ''name'' JNull) (dict_get kvs ''email'' JNull) ?tzv,
                isoformat \<lparr>wall = wall parsed - US * off, utcoffset = Some 0\<rparr>))"
    using assms h n u unfolding tool_prepare_def by (simp add: Let_def)
  then show "snd (schedule_meeting_tool env (Inr (JObj kvs)))
            = [booking_call env
                 (isoformat \<lparr>wall = wall parsed - US * off, utcoffset = Some 0\<rparr>) eid
                 (dict_get kvs ''name'' JNull) (dict_get kvs ''email'' JNull) ?tzv]"
    by (rule tool_calls_after_prepare)
next
  let ?tzv = "dict_get kvs ''timezone'' (JStr ''Europe/Amsterdam'')"
  let ?nd = "\<lparr>wall = wall parsed, utcoffset = Some off\<rparr>"
  assume h: "pytz_timezone env ?tzv = Inr tz \<and> localize_offset tz (wall parsed) = Inr off
        \<and> is_available_slot env ?nd ?tzv = Inr (False, msg)"
  have n: "tool_normalize env tz (dict_get kvs ''time'' JNull) = Inr ?nd"
    using assms h by (simp add: tool_normalize_def localize_def)
  have "tool_prepare env (Inr (JObj kvs)) =
          Inr (Inl (jsonify 400
                 [(''error'', JStr ''Requested time is not available''),
                  (''reason'', JStr msg),
                  (''availability'', JStr ''Monday-Friday, 9:00 AM - 5:00 PM in your timezone'')]))"
    using assms h n unfolding tool_prepare_def by simp
  then show "schedule_meeting_tool env (Inr (JObj kvs))
            = (jsonify 400
                 [(''error'', JStr ''Requested time is not available''),
                  (''reason'', JStr msg),
                  (''availability'', JStr ''Monday-Friday, 9:00 AM - 5:00 PM in your timezone'')],
               [])"
    by (simp add: schedule_meeting_tool_def)
next
  let ?tzv = "dict_get kvs ''timezone'' (JStr ''UTC'')"
  let ?nd = "\<lparr>wall = wall parsed, utcoffset = Some 0\<rparr>"
  assume h: "is_available_slot env ?nd ?tzv = Inr (True, msg)"
  have a: "app_aware parsed = Inr ?nd"
    using assms by (simp add: app_aware_def localize_def pytz_UTC_def)
  have "app_prepare env (Inr (JObj kvs)) =
          Inr (Inr (booking_call env (isoformat ?nd) eid
                 (dict_get kvs ''name'' JNull) (dict_get kvs ''email'' JNull) ?tzv, ?nd))"
    using assms h a unfolding app_prepare_def by (simp add: Let_def)
  then show "snd (schedule_meeting env (Inr (JObj kvs)))
            = [booking_call env (isoformat ?nd) eid
                 (dict_get kvs ''name'' JNull) (dict_get kvs ''email'' JNull) ?tzv]"
    by (rule app_calls_after_prepare)
next
  let ?tzv = "dict_get kvs ''timezone'' (JStr ''UTC'')"
  let ?nd = "\<lparr>wall = wall parsed, utcoffset = Some 0\<rparr>"
  assume h: "is_available_slot env ?nd ?tzv = Inr (False, msg)"
  have a: "app_aware parsed = Inr ?nd"
    using assms by (simp add: app_aware_def localize_def pytz_UTC_def)
  have "app_prepare env (Inr (JObj kvs)) =
          Inr (Inl (jsonify 400
                 [(''error'', JStr ''Requested time is not available''),
                  (''reason'', JStr msg),
                  (''availability'', JStr ''Monday-Friday, 9:00 AM - 5:00 PM UTC'')]))"
    using assms h a unfolding app_prepare_def by simp
  then show "schedule_meeting env (Inr (JObj kvs))
            = (jsonify 400
                 [(''error'', JStr ''Requested time is not available''),
                  (''reason'', JStr msg),
                  (''availability'', JStr ''Monday-Friday, 9:00 AM - 5:00 PM UTC'')],
               [])"
    by (simp add: schedule_meeting_def)
next
  assume h: "wall parsed = wall (mk_datetime 2025 1 10 10 0 0 0 None) \<and> off = - 18000"
  have e: "\<lparr>wall = wall (mk_datetime 2025 1 10 10 0 0 0 None) - US * (- 18000),
            utcoffset = Some 0\<rparr> = mk_datetime 2025 1 10 15 0 0 0 (Some 0)"
    by (simp add: calendar_defs)
  have d: "isoformat (mk_datetime 2025 1 10 15 0 0 0 (Some 0)) = ''2025-01-10T15:00:00+00:00''"
    by code_simp
  from h e d show "isoformat \<lparr>wall = wall parsed - US * off, utcoffset = Some 0\<rparr>
            = ''2025-01-10T15:00:00+00:00''"
    by simp
qed

text \<open>
  Claim C2 at the request with the time ``2025-01-10 10:00'' and the timezone
  America/New_York: \<open>schedule_meeting_tool\<close> sends the start 2025-01-10T15:00:00+00:00.
\<close>

theorem naive_time_declared_zone_witness:
  "truthy (dict_get [(''name'', JStr ''Ada''), (''email'', JStr ''ada@example.org''),
                     (''time'', JStr ''2025-01-10 10:00''),
                     (''timezone'', JStr ''America/New_York'')] ''time'' JNull)
   \<and> date_parse sample_env (JStr ''2025-01-10 10:00'') = Inr (mk_datetime 2025 1 10 10 0 0 0 None)
   \<and> utcoffset (mk_datetime 2025 1 10 10 0 0 0 None) = None
   \<and> pytz_timezone sample_env (JStr ''America/New_York'') = Inr sample_NY
   \<and> localize_offset sample_NY (wall (mk_datetime 2025 1 10 10 0 0 0 None)) = Inr (- 18000)
   \<and> is_available_slot sample_env
        \<lparr>wall = wall (mk_datetime 2025 1 10 10 0 0 0 None), utcoffset = Some (- 18000)\<rparr>
        (JStr ''America/New_York'') = Inr (True, ''Available'')
   \<and> snd (schedule_meeting_tool sample_env
        (Inr (sample_request ''2025-01-10 10:00'' ''America/New_York'')))
      = [booking_call sample_env ''2025-01-10T15:00:00+00:00'' 42
           (JStr ''Ada'') (JStr ''ada@example.org'') (JStr ''America/New_York'')]"
proof -
  let ?kvs = "[(''name'', JStr ''Ada''), (''email'', JStr ''ada@example.org''),
               (''time'', JStr ''2025-01-10 10:00''), (''timezone'', JStr ''America/New_York'')]"
  let ?p = "mk_datetime 2025 1 10 10 0 0 0 None"
  have g: "dict_get ?kvs ''name'' JNull = JStr ''Ada''"
    "dict_get ?kvs ''email'' JNull = JStr ''ada@example.org''"
    "dict_get ?kvs ''time'' JNull = JStr ''2025-01-10 10:00''"
    "dict_get ?kvs ''timezone'' (JStr ''Europe/Amsterdam'') = JStr ''America/New_York''"
    by (simp_all add: dict_get_def)
  have t: "truthy (dict_get ?kvs ''name'' JNull)" "truthy (dict_get ?kvs ''email'' JNull)"
    "truthy (dict_get ?kvs ''time'' JNull)"
    by (simp_all add: g)
  have p: "date_parse sample_env (dict_get ?kvs ''time'' JNull) = Inr ?p"
    by (simp add: g sample_env_def sample_parse_def)
  have n: "utcoffset ?p = None"
    by (simp add: mk_datetime_def)
  have e: "event_type_id sample_env = Inr 42"
    by (simp add: sample_env_def)
  have z: "pytz_timezone sample_env (JStr ''America/New_York'') = Inr sample_NY"
    by (simp add: sample_env_def sample_timezone_def)
  have l: "localize_offset sample_NY (wall ?p) = Inr (- 18000)"
    by (simp add: sample_NY_def calendar_defs)
  have a: "is_available_slot sample_env \<lparr>wall = wall ?p, utcoffset = Some (- 18000)\<rparr>
             (JStr ''America/New_York'') = Inr (True, ''Available'')"
    by code_simp
  have i: "isoformat \<lparr>wall = wall ?p - US * (- 18000), utcoffset = Some 0\<rparr>
             = ''2025-01-10T15:00:00+00:00''"
    using naive_time_declared_zone [OF t p n e, of sample_NY "- 18000" "''Available''"] by simp
  have c: "snd (schedule_meeting_tool sample_env (Inr (JObj ?kvs)))
      = [booking_call sample_env ''2025-01-10T15:00:00+00:00'' 42
           (JStr ''Ada'') (JStr ''ada@example.org'') (JStr ''America/New_York'')]"
    using naive_time_declared_zone [OF t p n e, of sample_NY "- 18000" "''Available''"]
      z l a i by (simp add: g)
  from t p n z l a c show ?thesis
    by (simp add: g sample_request_def)
qed

text \<open>
  Claim C2 fails for \<open>schedule_meeting\<close> (app.py): the naive ``2025-01-10 10:00'' with the
  declared zone America/New_York becomes 2025-01-10T10:00:00+00:00, not 15:00, and the
  request is refused as 05:00 local time.
\<close>

theorem naive_time_app_counterexample:
  "date_parse sample_env (JStr ''2025-01-10 10:00'') = Inr (mk_datetime 2025 1 10 10 0 0 0 None)
   \<and> app_aware (mk_datetime 2025 1 10 10 0 0 0 None) = Inr (mk_datetime 2025 1 10 10 0 0 0 (Some 0))
   \<and> astimezone sample_env (mk_datetime 2025 1 10 10 0 0 0 (Some 0)) pytz_UTC
       = Inr (mk_datetime 2025 1 10 10 0 0 0 (Some 0))
   \<and> isoformat (mk_datetime 2025 1 10 10 0 0 0 (Some 0)) = ''2025-01-10T10:00:00+00:00''
   \<and> isoformat (mk_datetime 2025 1 10 10 0 0 0 (Some 0)) \<noteq> ''2025-01-10T15:00:00+00:00''
   \<and> schedule_meeting sample_env (Inr (sample_request ''2025-01-10 10:00'' ''America/New_York''))
       = (jsonify 400
            [(''error'', JStr ''Requested time is not available''),
             (''reason'', JStr ''Outside business hours (9 AM - 5 PM). Requested: 5:00''),
             (''availability'', JStr ''Monday-Friday, 9:00 AM - 5:00 PM UTC'')], [])"
proof -
  have p: "date_parse sample_env (JStr ''2025-01-10 10:00'')
             = Inr (mk_datetime 2025 1 10 10 0 0 0 None)"
    by (simp add: sample_env_def sample_parse_def)
  have a: "app_aware (mk_datetime 2025 1 10 10 0 0 0 None)
             = Inr (mk_datetime 2025 1 10 10 0 0 0 (Some 0))"
    by (simp add: app_aware_def localize_def pytz_UTC_def mk_datetime_def)
  have u: "astimezone sample_env (mk_datetime 2025 1 10 10 0 0 0 (Some 0)) pytz_UTC
             = Inr (mk_datetime 2025 1 10 10 0 0 0 (Some 0))"
    by (simp add: astimezone_def Let_def pytz_UTC_def calendar_defs)
  have i: "isoformat (mk_datetime 2025 1 10 10 0 0 0 (Some 0)) = ''2025-01-10T10:00:00+00:00''"
    by code_simp
  have h: "schedule_meeting sample_env (Inr (sample_request ''2025-01-10 10:00'' ''America/New_York''))
       = (jsonify 400
            [(''error'', JStr ''Requested time is not available''),
             (''reason'', JStr ''Outside business hours (9 AM - 5 PM). Requested: 5:00''),
             (''availability'', JStr ''Monday-Friday, 9:00 AM - 5:00 PM UTC'')], [])"
    by code_simp
  from p a u i h show ?thesis by simp
qed

section \<open>The start of the booking\<close>

lemma tool_start_is_utc:
  assumes "tool_prepare env req = Inr (Inr (call, iso_date))"
  shows "\<exists>parsed_date utc_date eid name email tzv.
           astimezone env parsed_date pytz_UTC = Inr utc_date
         \<and> utcoffset utc_date = Some 0
         \<and> instant utc_date = instant parsed_date
         \<and> iso_date = isoformat utc_date
         \<and> call = booking_call env (isoformat utc_date) eid name email tzv"
proof -
  from assms obtain kvs where req: "req = Inr (JObj kvs)"
    by (cases req; cases "projr req")
       (auto simp: tool_prepare_def py_get_def)
  let ?tzv = "dict_get kvs ''timezone'' (JStr ''Europe/Amsterdam'')"
  let ?t = "dict_get kvs ''time'' JNull"
  from assms req obtain tz where tz: "pytz_timezone env ?tzv = Inr tz"
    by (auto simp: tool_prepare_def split: if_splits sum.splits exn.splits)
  from assms req tz obtain parsed_date where
    pd: "tool_normalize env tz ?t = Inr parsed_date"
    by (auto simp: tool_prepare_def split: if_splits sum.splits)
  from assms req tz pd obtain utc_date eid where
    u: "astimezone env parsed_date pytz_UTC = Inr utc_date"
    and i: "iso_date = isoformat utc_date"
    and c: "call = booking_call env (isoformat utc_date) eid (dict_get kvs ''name'' JNull)
                     (dict_get kvs ''email'' JNull) ?tzv"
    by (auto simp: tool_prepare_def bindE_def Let_def split: if_splits sum.splits prod.splits)
  from tool_normalize_aware [OF pd] obtain off where "utcoffset parsed_date = Some off" ..
  from astimezone_UTC [OF u this] u i c show ?thesis by blast
qed

text \<open>
  Claim C3 at a request of \<open>schedule_meeting\<close> (app.py) whose time string carries the offset
  +02:00: the payload's \<open>start\<close> is ``2025-01-10T12:00:00+02:00'', while the instant converted
  to UTC reads ``2025-01-10T10:00:00+00:00''.
\<close>

theorem app_start_keeps_offset:
  "schedule_meeting sample_env (Inr (sample_request ''2025-01-10T12:00:00+02:00'' ''UTC''))
     = (app_success (mk_datetime 2025 1 10 12 0 0 0 (Some 7200))
          (JObj [(''status'', JStr ''success''), (''data'', JObj [(''id'', JInt 7)])]),
        [booking_call sample_env ''2025-01-10T12:00:00+02:00'' 42
           (JStr ''Ada'') (JStr ''ada@example.org'') (JStr ''UTC'')])
   \<and> astimezone sample_env (mk_datetime 2025 1 10 12 0 0 0 (Some 7200)) pytz_UTC
       = Inr (mk_datetime 2025 1 10 10 0 0 0 (Some 0))
   \<and> isoformat (mk_datetime 2025 1 10 10 0 0 0 (Some 0)) = ''2025-01-10T10:00:00+00:00''"
proof -
  have h: "schedule_meeting sample_env (Inr (sample_request ''2025-01-10T12:00:00+02:00'' ''UTC''))
     = (app_success (mk_datetime 2025 1 10 12 0 0 0 (Some 7200))
          (JObj [(''status'', JStr ''success''), (''data'', JObj [(''id'', JInt 7)])]),
        [booking_call sample_env ''2025-01-10T12:00:00+02:00'' 42
           (JStr ''Ada'') (JStr ''ada@example.org'') (JStr ''UTC'')])"
    by code_simp
  have u: "astimezone sample_env (mk_datetime 2025 1 10 12 0 0 0 (Some 7200)) pytz_UTC
             = Inr (mk_datetime 2025 1 10 10 0 0 0 (Some 0))"
    by (simp add: astimezone_def Let_def pytz_UTC_def calendar_defs)
  have i: "isoformat (mk_datetime 2025 1 10 10 0 0 0 (Some 0)) = ''2025-01-10T10:00:00+00:00''"
    by code_simp
  from h u i show ?thesis by simp
qed

section \<open>Unknown timezones\<close>

lemma tool_prepare_present:
  assumes "truthy (dict_get kvs ''name'' JNull)" and "truthy (dict_get kvs ''email'' JNull)"
    and "truthy (dict_get kvs ''time'' JNull)"
    and "pytz_timezone env (dict_get kvs ''timezone'' (JStr ''Europe/Amsterdam''))
           = Inl (UnknownTimeZoneError m)"
  shows "tool_prepare env (Inr (JObj kvs)) =
           Inr (Inl (jsonify 400 [(''error'', JStr (''Invalid timezone: ''
              @ py_str env (dict_get kvs ''timezone'' (JStr ''Europe/Amsterdam''))))]))"
  using assms unfolding tool_prepare_def by simp

lemma tool_unknown_timezone_400:
  assumes "pytz_timezone env (dict_get kvs ''timezone'' (JStr ''Europe/Amsterdam''))
           = Inl (UnknownTimeZoneError m)"
  shows "schedule_meeting_tool env (Inr (JObj kvs)) =
           (if truthy (dict_get kvs ''name'' JNull) \<and> truthy (dict_get kvs ''email'' JNull)
               \<and> truthy (dict_get kvs ''time'' JNull)
            then jsonify 400 [(''error'', JStr (''Invalid timezone: ''
                   @ py_str env (dict_get kvs ''timezone'' (JStr ''Europe/Amsterdam''))))]
            else missing_fields, [])"
proof (cases "truthy (dict_get kvs ''name'' JNull) \<and> truthy (dict_get kvs ''email'' JNull)
               \<and> truthy (dict_get kvs ''time'' JNull)")
  case True
  then show ?thesis
    by (simp add: schedule_meeting_tool_def tool_prepare_present [OF _ _ _ assms])
next
  case False
  then have "\<not> truthy (dict_get kvs ''name'' JNull) \<or> \<not> truthy (dict_get kvs ''email'' JNull)
           \<or> \<not> truthy (dict_get kvs ''time'' JNull)"
    by blast
  then have m: "schedule_meeting_tool env (Inr (JObj kvs)) = (missing_fields, [])"
    by (rule tool_missing)
  show ?thesis
    unfolding m using False by (simp only: if_False)
qed

text \<open>
  Claim C5 at a request of \<open>schedule_meeting\<close> (app.py) with the timezone ``Mars/Phobos'':
  the answer is HTTP 500 ``Internal Server Error''.
\<close>

theorem app_unknown_timezone_500:
  "schedule_meeting sample_env (Inr (sample_request ''2025-01-10 10:00'' ''Mars/Phobos''))
     = (jsonify 500 [(''error'', JStr ''Internal Server Error''),
                     (''details'', JStr ([CHR 0x27] @ ''Mars/Phobos'' @ [CHR 0x27]))], [])"
  by code_simp

section \<open>The upstream response\<close>

lemma tool_after_call:
  assumes "tool_prepare env req = Inr (Inr (call, iso_date))"
  shows "schedule_meeting_tool env req =
           (case bindE (requests_post env call) (tool_conclude iso_date) of
              Inl e \<Rightarrow> (internal_error e, [call]) | Inr r \<Rightarrow> (r, [call]))"
  using assms by (simp add: schedule_meeting_tool_def)

lemma app_after_call:
  assumes "app_prepare env req = Inr (Inr (call, parsed_date))"
  shows "schedule_meeting env req =
           (case bindE (requests_post env call) (app_conclude parsed_date) of
              Inl e \<Rightarrow> (internal_error e, [call]) | Inr r \<Rightarrow> (r, [call]))"
  using assms by (simp add: schedule_meeting_def)

lemma tool_conclude_obj:
  assumes "res_json res = Inr (JObj kvs)"
  shows "tool_conclude iso_date res =
     Inr (if status_code res = 201 \<and> dict_get kvs ''status'' JNull = JStr ''success''
          then jsonify 200 [(''success'', JBool True),
                            (''message'', JStr (''Meeting scheduled for '' @ iso_date)),
                            (''booking'', dict_get kvs ''data'' JNull)]
          else jsonify 500 [(''error'', JStr ''Failed to create Cal.com booking''),
                            (''details'', JObj kvs)])"
  using assms by (simp add: tool_conclude_def)

lemma app_conclude_obj:
  assumes "res_json res = Inr (JObj kvs)"
  shows "app_conclude parsed_date res =
     (if dict_get kvs ''status'' JNull = JStr ''success'' then
        bindE (log_booking (dict_get kvs ''data'' (JObj [])))
          (\<lambda>_. Inr (app_success parsed_date (JObj kvs)))
      else if status_code res \<noteq> 200 then
        Inr (jsonify 500 [(''error'', JStr ''Failed to create Cal.com booking''),
                          (''details'', JStr (text_of res))])
      else Inr (app_success parsed_date (JObj kvs)))"
  using assms by (simp add: app_conclude_def)

text \<open>
  Claim C4, as the code has it. Once the booking call is made and answered:
  \<open>schedule_meeting_tool\<close> (main.py), on a body that is a JSON object, answers HTTP 200 with the
  confirmation and the body's \<open>data\<close> if and only if the upstream status is 201 and the body's
  \<open>status\<close> is ``success'', and HTTP 500 ``Failed to create Cal.com booking'' with the body
  otherwise; on a body that is not JSON the catch-all answers HTTP 500.
  \<open>schedule_meeting\<close> (app.py), on a body whose \<open>status\<close> is not ``success'', answers that
  HTTP 500 failure (with the upstream text) only when the upstream status is not 200, and
  success otherwise; on a body whose \<open>status\<close> is ``success'' and whose booking details can be
  logged it answers success.
\<close>

theorem upstream_outcome:
  "(tool_prepare env req = Inr (Inr (call, iso_date)) \<and> requests_post env call = Inr res
      \<and> res_json res = Inr (JObj kvs)
    \<longrightarrow> schedule_meeting_tool env req =
          (if status_code res = 201 \<and> dict_get kvs ''status'' JNull = JStr ''success''
           then jsonify 200 [(''success'', JBool True),
                             (''message'', JStr (''Meeting scheduled for '' @ iso_date)),
                             (''booking'', dict_get kvs ''data'' JNull)]
           else jsonify 500 [(''error'', JStr ''Failed to create Cal.com booking''),
                             (''details'', JObj kvs)],
           [call]))
 \<and> (tool_prepare env req = Inr (Inr (call, iso_date)) \<and> requests_post env call = Inr res
      \<and> res_json res = Inl e
    \<longrightarrow> schedule_meeting_tool env req = (internal_error e, [call]))
 \<and> (app_prepare env req = Inr (Inr (call, parsed_date)) \<and> requests_post env call = Inr res
      \<and> res_json res = Inr (JObj kvs) \<and> dict_get kvs ''status'' JNull \<noteq> JStr ''success''
    \<longrightarrow> schedule_meeting env req =
          (if status_code res \<noteq> 200
           then jsonify 500 [(''error'', JStr ''Failed to create Cal.com booking''),
                             (''details'', JStr (text_of res))]
           else app_success parsed_date (JObj kvs),
           [call]))
 \<and> (app_prepare env req = Inr (Inr (call, parsed_date)) \<and> requests_post env call = Inr res
      \<and> res_json res = Inr (JObj kvs) \<and> dict_get kvs ''status'' JNull = JStr ''success''
      \<and> log_booking (dict_get kvs ''data'' (JObj [])) = Inr ()
    \<longrightarrow> schedule_meeting env req = (app_success parsed_date (JObj kvs), [call]))"
proof (intro conjI impI)
  assume "tool_prepare env req = Inr (Inr (call, iso_date)) \<and> requests_post env call = Inr res
      \<and> res_json res = Inr (JObj kvs)"
  then show "schedule_meeting_tool env req =
          (if status_code res = 201 \<and> dict_get kvs ''status'' JNull = JStr ''success''
           then jsonify 200 [(''success'', JBool True),
                             (''message'', JStr (''Meeting scheduled for '' @ iso_date)),
                             (''booking'', dict_get kvs ''data'' JNull)]
           else jsonify 500 [(''error'', JStr ''Failed to create Cal.com booking''),
                             (''details'', JObj kvs)],
           [call])"
    by (simp add: tool_after_call tool_conclude_obj)
next
  assume "tool_prepare env req = Inr (Inr (call, iso_date)) \<and> requests_post env call = Inr res
      \<and> res_json res = Inl e"
  then show "schedule_meeting_tool env req = (internal_error e, [call])"
    by (simp add: tool_after_call tool_conclude_def)
next
  assume "app_prepare env req = Inr (Inr (call, parsed_date)) \<and> requests_post env call = Inr res
      \<and> res_json res = Inr (JObj kvs) \<and> dict_get kvs ''status'' JNull \<noteq> JStr ''success''"
  then show "schedule_meeting env req =
          (if status_code res \<noteq> 200
           then jsonify 500 [(''error'', JStr ''Failed to create Cal.com booking''),
                             (''details'', JStr (text_of res))]
           else app_success parsed_date (JObj kvs),
           [call])"
    by (simp add: app_after_call app_conclude_obj)
next
  assume "app_prepare env req = Inr (Inr (call, parsed_date)) \<and> requests_post env call = Inr res
      \<and> res_json res = Inr (JObj kvs) \<and> dict_get kvs ''status'' JNull = JStr ''success''
      \<and> log_booking (dict_get kvs ''data'' (JObj [])) = Inr ()"
  then show "schedule_meeting env req = (app_success parsed_date (JObj kvs), [call])"
    by (simp add: app_after_call app_conclude_obj)
qed

text \<open>
  Claim C4 for \<open>schedule_meeting_tool\<close> at an upstream HTTP 200 with the body
  \<open>{"status": "error"}\<close>: HTTP 500.
\<close>

theorem upstream_outcome_witness:
  "tool_prepare sample_env_refusing (Inr (sample_request ''2025-01-10 10:00'' ''UTC''))
     = Inr (Inr (booking_call sample_env_refusing ''2025-01-10T10:00:00+00:00'' 42
                   (JStr ''Ada'') (JStr ''ada@example.org'') (JStr ''UTC''),
                 ''2025-01-10T10:00:00+00:00''))
   \<and> requests_post sample_env_refusing
        (booking_call sample_env_refusing ''2025-01-10T10:00:00+00:00'' 42
           (JStr ''Ada'') (JStr ''ada@example.org'') (JStr ''UTC'')) = Inr sample_refused
   \<and> res_json sample_refused = Inr (JObj [(''status'', JStr ''error'')])
   \<and> status_code sample_refused = 200
   \<and> schedule_meeting_tool sample_env_refusing (Inr (sample_request ''2025-01-10 10:00'' ''UTC''))
     = (jsonify 500 [(''error'', JStr ''Failed to create Cal.com booking''),
                     (''details'', JObj [(''status'', JStr ''error'')])],
        [booking_call sample_env_refusing ''2025-01-10T10:00:00+00:00'' 42
           (JStr ''Ada'') (JStr ''ada@example.org'') (JStr ''UTC'')])"
proof -
  let ?call = "booking_call sample_env_refusing ''2025-01-10T10:00:00+00:00'' 42
                 (JStr ''Ada'') (JStr ''ada@example.org'') (JStr ''UTC'')"
  have p: "tool_prepare sample_env_refusing (Inr (sample_request ''2025-01-10 10:00'' ''UTC''))
             = Inr (Inr (?call, ''2025-01-10T10:00:00+00:00''))"
    by code_simp
  have q: "requests_post sample_env_refusing ?call = Inr sample_refused"
    by (simp add: sample_env_refusing_def)
  have r: "res_json sample_refused = Inr (JObj [(''status'', JStr ''error'')])"
    and c: "status_code sample_refused = 200"
    by (simp_all add: sample_refused_def)
  from upstream_outcome [of sample_env_refusing "Inr (sample_request ''2025-01-10 10:00'' ''UTC'')"
      ?call "''2025-01-10T10:00:00+00:00''" sample_refused "[(''status'', JStr ''error'')]"]
    p q r c
  show ?thesis by (simp add: dict_get_def)
qed

text \<open>
  Claim C4 fails for \<open>schedule_meeting\<close> (app.py): an upstream HTTP 200 with the body
  \<open>{"status": "error"}\<close> is answered as a success, HTTP 200.
\<close>

theorem app_accepts_error_body_counterexample:
  "status_code sample_refused = 200
   \<and> res_json sample_refused = Inr (JObj [(''status'', JStr ''error'')])
   \<and> schedule_meeting sample_env_refusing (Inr (sample_request ''2025-01-10 10:00'' ''UTC''))
     = (jsonify 200 [(''success'', JBool True),
                     (''message'', JStr ''Meeting scheduled for 2025-01-10 10:00:00+00:00''),
                     (''booking'', JObj [(''status'', JStr ''error'')])],
        [booking_call sample_env_refusing ''2025-01-10T10:00:00+00:00'' 42
           (JStr ''Ada'') (JStr ''ada@example.org'') (JStr ''UTC'')])"
  by code_simp

section \<open>The catch-all\<close>

lemma handlers_catch_get_json:
  "schedule_meeting_tool env (Inl e) = (internal_error e, [])"
  "schedule_meeting env (Inl e) = (internal_error e, [])"
  by (simp_all add: schedule_meeting_tool_def schedule_meeting_def tool_prepare_def
        app_prepare_def)

lemma handlers_catch_prepare:
  "tool_prepare env req = Inl e \<Longrightarrow> schedule_meeting_tool env req = (internal_error e, [])"
  "app_prepare env req = Inl e \<Longrightarrow> schedule_meeting env req = (internal_error e, [])"
  by (simp_all add: schedule_meeting_tool_def schedule_meeting_def)

lemma handlers_catch_post:
  "tool_prepare env req = Inr (Inr (call, iso_date)) \<Longrightarrow> requests_post env call = Inl e
     \<Longrightarrow> schedule_meeting_tool env req = (internal_error e, [call])"
  "app_prepare env req = Inr (Inr (call, parsed_date)) \<Longrightarrow> requests_post env call = Inl e
     \<Longrightarrow> schedule_meeting env req = (internal_error e, [call])"
  by (simp_all add: schedule_meeting_tool_def schedule_meeting_def)

text \<open>
  Claim C8 at a request with the timezone ``Mars/Phobos'': \<open>schedule_meeting_tool\<close> (main.py)
  answers the specific error ``Invalid timezone'' with HTTP 400, while in \<open>schedule_meeting\<close>
  (app.py) the unknown zone reaches the catch-all and is answered as an internal error.
\<close>

theorem app_catch_all_masks_timezone:
  "fst (schedule_meeting_tool sample_env (Inr (sample_request ''2025-01-11 10:00'' ''Mars/Phobos'')))
     = jsonify 400 [(''error'', JStr ''Invalid timezone: Mars/Phobos'')]
   \<and> fst (schedule_meeting sample_env (Inr (sample_request ''2025-01-11 10:00'' ''Mars/Phobos'')))
     = internal_error (UnknownTimeZoneError ([CHR 0x27] @ ''Mars/Phobos'' @ [CHR 0x27]))"
  by code_simp

end
